theory Spec2Isabelle
  imports Complex_Main "HOL-Library.Sublist"
begin

section \<open>Detector response and nested-sampling glue of DD\_DM\_targets\<close>

text \<open>
  The repository holds two generations of the same code: the package \<^verbatim>\<open>dddm\<close>
  (\<^verbatim>\<open>dddm/recoil_rates/detector_spectrum.py\<close>) and its predecessor
  \<^verbatim>\<open>DirectDmTargets\<close> (\<^verbatim>\<open>detector.py\<close>, \<^verbatim>\<open>nestle.py\<close>). Functions of the
  predecessor that share a name with a \<^verbatim>\<open>dddm\<close> function carry the prefix
  \<open>legacy_\<close> here.

  Numbers: a numpy array of floats is a list of reals, and arithmetic is exact. Rounding
  and the special values of IEEE arithmetic (NaN, the infinities) are outside this model,
  but for the two places where the source tests for a NaN or makes one from ordinary
  numbers: the value of the log-likelihood, tested with \<^verbatim>\<open>np.isnan\<close>, and the average
  of an empty array in \<^verbatim>\<open>chuck_integration\<close>. Those values are of type \<open>pyfloat\<close>.

  Functions that the source compiles with numba are modelled by what their Python text
  does: an index out of range and a division of numbers by zero raise.
\<close>

subsection \<open>Errors\<close>

text \<open>
  Every \<^verbatim>\<open>raise\<close> of the modelled code is a value of this type. \<open>ValueError\<close> and
  \<open>TypeError\<close> carry the message of the exception; \<open>NotImplementedError\<close> carries the
  unknown parameter name and \<open>NameError\<close> the expected and the given parameter lists (the
  data their messages are formatted from). \<open>IndexError\<close>, \<open>KeyError\<close> and
  \<open>ZeroDivisionError\<close> are what Python raises on an index out of range, on a missing
  dictionary key and on a division of numbers by zero; \<open>AssertionError\<close> is a failed
  \<^verbatim>\<open>assert\<close>.
\<close>

datatype error =
    ValueError string
  | TypeError string
  | NotImplementedError string
  | NameError "string list" "string list"
  | IndexError
  | KeyError string
  | ZeroDivisionError
  | AssertionError

subsection \<open>The threshold cut\<close>

text \<open>
  \<^verbatim>\<open>DetectorSpectrum.above_threshold(rates, e_bin_edges, e_thr)\<close> of \<^verbatim>\<open>dddm\<close>:
  \<^verbatim>\<open>
  for r_i, r in enumerate(rates):
      left_edge, right_edge = e_bin_edges[r_i]
      if left_edge >= e_thr:
          break
      if right_edge <= e_thr:
          rates[r_i] = 0
          continue
      elif left_edge <= e_thr and e_thr <= right_edge:
          fraction_above = (right_edge - e_thr) / (right_edge - left_edge)
          rates[r_i] = r * fraction_above
      else:
          print(left_edge, right_edge, e_thr)
          raise ValueError('How did this happen?')
  return rates
  \<close>
  The loop walks \<open>rates\<close> and the rows of \<open>e_bin_edges\<close> in step; the recursion is on
  both lists. \<open>break\<close> returns the rest of \<open>rates\<close> as it is. A missing row is Python's
  \<open>IndexError\<close>.
\<close>

fun above_threshold :: "real list \<Rightarrow> (real \<times> real) list \<Rightarrow> real \<Rightarrow> error + real list" where
  "above_threshold [] e_bin_edges e_thr = Inr []"
| "above_threshold (r # rates) [] e_thr = Inl IndexError"
| "above_threshold (r # rates) ((left_edge, right_edge) # e_bin_edges) e_thr =
     (if left_edge \<ge> e_thr then Inr (r # rates)
      else if right_edge \<le> e_thr then
        (case above_threshold rates e_bin_edges e_thr of
           Inl e \<Rightarrow> Inl e
         | Inr rest \<Rightarrow> Inr (0 # rest))
      else if left_edge \<le> e_thr \<and> e_thr \<le> right_edge then
        (let fraction_above = (right_edge - e_thr) / (right_edge - left_edge) in
         case above_threshold rates e_bin_edges e_thr of
           Inl e \<Rightarrow> Inl e
         | Inr rest \<Rightarrow> Inr (r * fraction_above # rest))
      else Inl (ValueError ''How did this happen?''))"

text \<open>
  \<^verbatim>\<open>DetectorSpectrum.above_threshold(self, rates, energies)\<close> of \<^verbatim>\<open>DirectDmTargets\<close>:
  \<^verbatim>\<open>rates[energies < self.experiment['E_thr']] = 0; return rates\<close>.
  A boolean mask of another length than \<open>rates\<close> is numpy's \<open>IndexError\<close>.
\<close>

definition legacy_above_threshold :: "real \<Rightarrow> real list \<Rightarrow> real list \<Rightarrow> error + real list" where
  "legacy_above_threshold E_thr rates energies =
     (if length energies \<noteq> length rates then Inl IndexError
      else Inr (map2 (\<lambda>r e. if e < E_thr then 0 else r) rates energies))"

text \<open>Applying a cut to the result of a cut: the second call runs only if the first returned.\<close>

definition twice :: "('a \<Rightarrow> error + 'a) \<Rightarrow> 'a \<Rightarrow> error + 'a" where
  "twice f x = (case f x of Inl e \<Rightarrow> Inl e | Inr y \<Rightarrow> f y)"

text \<open>
  What the threshold cut is said to do to one bin with edges \<open>(L, R)\<close>: nothing when
  \<open>L \<ge> T\<close>, zero when \<open>R \<le> T\<close>, the fraction \<open>(R - T) / (R - L)\<close> of it otherwise.
\<close>

definition cut_bin :: "real \<Rightarrow> real \<Rightarrow> real \<times> real \<Rightarrow> real" where
  "cut_bin T r e = (case e of (L, R) \<Rightarrow>
     if L \<ge> T then r else if R \<le> T then 0 else r * ((R - T) / (R - L)))"

text \<open>Rows in increasing energy, each with its left edge strictly below its right edge.\<close>

definition ordered_bins :: "(real \<times> real) list \<Rightarrow> bool" where
  "ordered_bins es \<longleftrightarrow> sorted (map fst es) \<and> list_all (\<lambda>(L, R). L < R) es"

subsection \<open>Gaussian smearing\<close>

text \<open>
  One summand of the convolution, as both generations write it:
  \<^verbatim>\<open>bin_width[j] * rate[j] * (1. / (np.sqrt(2. * np.pi) * sigma[j])) *
    np.exp(-(((energy[i] - energy[j]) ** 2.) / (2. * sigma[j] ** 2.)))\<close>.
\<close>

definition gauss_term :: "real \<Rightarrow> real \<Rightarrow> real \<Rightarrow> real \<Rightarrow> real \<Rightarrow> real" where
  "gauss_term bw r s e_i e_j =
     bw * r * (1 / (sqrt (2 * pi) * s)) * exp (- (((e_i - e_j)\<^sup>2) / (2 * s\<^sup>2)))"

text \<open>
  The summand at indices \<open>i\<close> and \<open>j\<close> of \<^verbatim>\<open>_smear_signal\<close>, with the failures of its
  subexpressions in the order Python evaluates them: the reads \<open>bin_width[j]\<close> and
  \<open>sigma[j]\<close>, the division by \<open>sigma[j]\<close>, the read \<open>energy[j]\<close>. (\<open>rate[j]\<close> and
  \<open>energy[i]\<close> are in range by the loop bounds.)
\<close>

definition smear_term ::
  "real list \<Rightarrow> real list \<Rightarrow> real list \<Rightarrow> real list \<Rightarrow> nat \<Rightarrow> nat \<Rightarrow> error + real" where
  "smear_term rate energy sigma bin_width i j =
     (if \<not> (j < length bin_width \<and> j < length sigma) then Inl IndexError
      else if sigma ! j = 0 then Inl ZeroDivisionError
      else if \<not> j < length energy then Inl IndexError
      else Inr (gauss_term (bin_width ! j) (rate ! j) (sigma ! j) (energy ! i) (energy ! j)))"

text \<open>The inner loop \<^verbatim>\<open>for j in range(len(rate)): res = res + ...\<close> over the indices left.\<close>

fun smear_row ::
  "real list \<Rightarrow> real list \<Rightarrow> real list \<Rightarrow> real list \<Rightarrow> nat \<Rightarrow> nat list \<Rightarrow> real \<Rightarrow> error + real" where
  "smear_row rate energy sigma bin_width i [] res = Inr res"
| "smear_row rate energy sigma bin_width i (j # js) res =
     (case smear_term rate energy sigma bin_width i j of
        Inl e \<Rightarrow> Inl e
      | Inr t \<Rightarrow> smear_row rate energy sigma bin_width i js (res + t))"

text \<open>
  The outer loop \<^verbatim>\<open>for i in range(len(energy)): res = 0.; ...; result_buffer[i] = res\<close>
  over the indices left; a write past the end of the buffer is an \<open>IndexError\<close>.
\<close>

fun smear_rows ::
  "real list \<Rightarrow> real list \<Rightarrow> real list \<Rightarrow> real list \<Rightarrow> nat list \<Rightarrow> real list \<Rightarrow> error + real list" where
  "smear_rows rate energy sigma bin_width [] result_buffer = Inr result_buffer"
| "smear_rows rate energy sigma bin_width (i # is) result_buffer =
     (case smear_row rate energy sigma bin_width i [0..<length rate] 0 of
        Inl e \<Rightarrow> Inl e
      | Inr res \<Rightarrow>
          if i < length result_buffer
          then smear_rows rate energy sigma bin_width is (result_buffer[i := res])
          else Inl IndexError)"

definition smear_signal_loop ::
  "real list \<Rightarrow> real list \<Rightarrow> real list \<Rightarrow> real list \<Rightarrow> real list \<Rightarrow> error + real list" where
  "smear_signal_loop rate energy sigma bin_width result_buffer =
     smear_rows rate energy sigma bin_width [0..<length energy] result_buffer"

text \<open>
  numpy's elementwise comparison \<^verbatim>\<open>sigma < bin_width\<close> under \<^verbatim>\<open>np.any\<close>: arrays of one
  length are compared entry by entry, an array of length one is broadcast against the
  other, and any other pair of lengths is numpy's \<open>ValueError\<close>.
\<close>

definition np_any_less :: "real list \<Rightarrow> real list \<Rightarrow> error + bool" where
  "np_any_less xs ys =
     (if length xs = length ys then Inr (list_ex (\<lambda>(x, y). x < y) (zip xs ys))
      else if length ys = 1 then Inr (list_ex (\<lambda>x. x < hd ys) xs)
      else if length xs = 1 then Inr (list_ex (\<lambda>y. hd xs < y) ys)
      else Inl (ValueError ''operands could not be broadcast together''))"

text \<open>
  \<^verbatim>\<open>warnings.warn(f'Resolution {np.mean(sigma)} smaller than bin_width {bin_width}!',
  UserWarning)\<close>: the warning carries the two values its message is formatted from.
\<close>

datatype warning = UserWarning real "real list"

definition np_mean :: "real list \<Rightarrow> real" where
  "np_mean xs = sum_list xs / real (length xs)"

text \<open>
  \<^verbatim>\<open>smear_signal(rate, energy, sigma, bin_width)\<close> of \<^verbatim>\<open>dddm\<close>:
  \<^verbatim>\<open>
  if np.any(sigma < bin_width):
      warnings.warn(..., UserWarning)
      return rate
  result_buffer = np.zeros(len(rate), dtype=np.float64)
  return _smear_signal(rate, energy, sigma, bin_width, result_buffer)
  \<close>
  The result is the list of warnings emitted and the array returned.
\<close>

definition smear_signal ::
  "real list \<Rightarrow> real list \<Rightarrow> real list \<Rightarrow> real list \<Rightarrow> error + (warning list \<times> real list)" where
  "smear_signal rate energy sigma bin_width =
     (case np_any_less sigma bin_width of
        Inl e \<Rightarrow> Inl e
      | Inr under_resolved \<Rightarrow>
          if under_resolved then Inr ([UserWarning (np_mean sigma) bin_width], rate)
          else
            (case smear_signal_loop rate energy sigma bin_width (replicate (length rate) 0) of
               Inl e \<Rightarrow> Inl e
             | Inr smeared \<Rightarrow> Inr ([], smeared)))"

text \<open>
  \<^verbatim>\<open>smear_signal(rate, energy, sigma, bin_width)\<close> of \<^verbatim>\<open>DirectDmTargets\<close>: the same double
  loop with a scalar \<open>bin_width\<close>, appending to a list, and no test of \<open>sigma\<close> before it.
\<close>

definition legacy_smear_term ::
  "real list \<Rightarrow> real list \<Rightarrow> real list \<Rightarrow> real \<Rightarrow> nat \<Rightarrow> nat \<Rightarrow> error + real" where
  "legacy_smear_term rate energy sigma bin_width i j =
     (if \<not> j < length sigma then Inl IndexError
      else if sigma ! j = 0 then Inl ZeroDivisionError
      else if \<not> j < length energy then Inl IndexError
      else Inr (gauss_term bin_width (rate ! j) (sigma ! j) (energy ! i) (energy ! j)))"

fun legacy_smear_row ::
  "real list \<Rightarrow> real list \<Rightarrow> real list \<Rightarrow> real \<Rightarrow> nat \<Rightarrow> nat list \<Rightarrow> real \<Rightarrow> error + real" where
  "legacy_smear_row rate energy sigma bin_width i [] res = Inr res"
| "legacy_smear_row rate energy sigma bin_width i (j # js) res =
     (case legacy_smear_term rate energy sigma bin_width i j of
        Inl e \<Rightarrow> Inl e
      | Inr t \<Rightarrow> legacy_smear_row rate energy sigma bin_width i js (res + t))"

fun legacy_smear_rows ::
  "real list \<Rightarrow> real list \<Rightarrow> real list \<Rightarrow> real \<Rightarrow> nat list \<Rightarrow> real list \<Rightarrow> error + real list" where
  "legacy_smear_rows rate energy sigma bin_width [] result = Inr result"
| "legacy_smear_rows rate energy sigma bin_width (i # is) result =
     (case legacy_smear_row rate energy sigma bin_width i [0..<length rate] 0 of
        Inl e \<Rightarrow> Inl e
      | Inr res \<Rightarrow> legacy_smear_rows rate energy sigma bin_width is (result @ [res]))"

definition legacy_smear_signal ::
  "real list \<Rightarrow> real list \<Rightarrow> real list \<Rightarrow> real \<Rightarrow> error + real list" where
  "legacy_smear_signal rate energy sigma bin_width =
     legacy_smear_rows rate energy sigma bin_width [0..<length energy] []"

text \<open>
  The discrete convolution as a formula: entry \<open>i\<close> is the sum over all \<open>j\<close> of the
  summands.
\<close>

definition convolution :: "real list \<Rightarrow> real list \<Rightarrow> real list \<Rightarrow> real list \<Rightarrow> real list" where
  "convolution rate energy sigma bin_width =
     map (\<lambda>i. \<Sum>j \<leftarrow> [0..<length rate].
            gauss_term (bin_width ! j) (rate ! j) (sigma ! j) (energy ! i) (energy ! j))
         [0..<length energy]"


subsection \<open>The nested-sampling model: fit parameters, likelihood, prior transform\<close>

text \<open>A float that may be NaN.\<close>

datatype pyfloat = Fin real | NaN

fun isnan :: "pyfloat \<Rightarrow> bool" where
  "isnan NaN = True"
| "isnan (Fin x) = False"

text \<open>Python's \<^verbatim>\<open>f"{ll}"\<close> of a NaN; the format of other floats is not modelled.\<close>

definition str_nan :: string where
  "str_nan = ''nan''"

text \<open>
  The argument of \<^verbatim>\<open>set_fit_parameters\<close>: a Python list of names, or a sequence of
  another type (the names of a tuple, say), which the function refuses.
\<close>

datatype pyparams = PyList "string list" | PyTuple "string list"

text \<open>
  One entry of \<^verbatim>\<open>config['prior']\<close>: a dictionary with the key \<^verbatim>\<open>'prior_type'\<close> and,
  when set, the keys \<^verbatim>\<open>'param'\<close> and \<^verbatim>\<open>'range'\<close>, each a pair of numbers.
\<close>

record prior_entry =
  prior_type :: string
  param :: "(real \<times> real) option"
  prior_range :: "(real \<times> real) option"

text \<open>
  The fields of \<^verbatim>\<open>NestleStatModel\<close> that the modelled methods read or write.
  \<open>known_parameters\<close> is the class attribute set from \<^verbatim>\<open>get_param_list()\<close>, a function of
  \<^verbatim>\<open>statistics.py\<close>, which is not among the sources: it is a field like the others.
  \<open>did_run\<close> is \<^verbatim>\<open>self.log['did_run']\<close>, \<open>prior\<close> is \<^verbatim>\<open>self.config['prior']\<close>; \<open>result\<close> is
  what the sampler returned, of a type left open.
\<close>

record 'r NestleStatModel =
  known_parameters :: "string list"
  fit_parameters :: "string list"
  prior :: "string \<rightharpoonup> prior_entry"
  benchmark_values :: "real list"
  did_run :: bool
  result :: "'r option"

text \<open>
  \<^verbatim>\<open>
  def set_fit_parameters(self, params):
      if not type(params) == list:
          raise TypeError("Set the parameter names in a list of strings")
      for param in params:
          if param not in self.known_parameters:
              raise NotImplementedError(err_message)
      if not params == self.known_parameters[:len(params)]:
          raise NameError(err_message)
      self.fit_parameters = params
  \<close>
\<close>

definition set_fit_parameters ::
  "'r NestleStatModel \<Rightarrow> pyparams \<Rightarrow> error + 'r NestleStatModel" where
  "set_fit_parameters self params =
     (case params of
        PyTuple _ \<Rightarrow> Inl (TypeError ''Set the parameter names in a list of strings'')
      | PyList ps \<Rightarrow>
          (case find (\<lambda>name. name \<notin> set (known_parameters self)) ps of
             Some name \<Rightarrow> Inl (NotImplementedError name)
           | None \<Rightarrow>
               if \<not> ps = take (length ps) (known_parameters self)
               then Inl (NameError (take (length ps) (known_parameters self)) ps)
               else Inr (self\<lparr>fit_parameters := ps\<rparr>)))"

text \<open>
  \<^verbatim>\<open>
  def log_probability_nestle(self, parameter_vals, parameter_names):
      evaluated_rate = self.eval_spectrum(parameter_vals, parameter_names)['counts']
      ll = log_likelihood(self.benchmark_values, evaluated_rate)
      if np.isnan(ll):
          raise ValueError(f"Returned NaN from likelihood. ll = {ll}")
      return ll
  \<close>
  \<^verbatim>\<open>eval_spectrum\<close> and \<^verbatim>\<open>log_likelihood\<close> are defined in \<^verbatim>\<open>statistics.py\<close>, which is
  not among the sources: they are parameters, and either may raise.
\<close>

definition log_probability_nestle ::
  "(real list \<Rightarrow> string list \<Rightarrow> error + real list) \<Rightarrow>
   (real list \<Rightarrow> real list \<Rightarrow> error + pyfloat) \<Rightarrow>
   'r NestleStatModel \<Rightarrow> real list \<Rightarrow> string list \<Rightarrow> error + pyfloat" where
  "log_probability_nestle eval_spectrum log_likelihood self parameter_vals parameter_names =
     (case eval_spectrum parameter_vals parameter_names of
        Inl e \<Rightarrow> Inl e
      | Inr evaluated_rate \<Rightarrow>
          (case log_likelihood (benchmark_values self) evaluated_rate of
             Inl e \<Rightarrow> Inl e
           | Inr ll \<Rightarrow>
               if isnan ll
               then Inl (ValueError (''Returned NaN from likelihood. ll = '' @ str_nan))
               else Inr ll))"

text \<open>
  \<^verbatim>\<open>_log_probability_nestle(self, theta)\<close>: the function handed to the sampler,
  \<^verbatim>\<open>self.log_probability_nestle(theta, self.known_parameters[:len(theta)])\<close>.
\<close>

definition log_probability_nestle_theta ::
  "(real list \<Rightarrow> string list \<Rightarrow> error + real list) \<Rightarrow>
   (real list \<Rightarrow> real list \<Rightarrow> error + pyfloat) \<Rightarrow>
   'r NestleStatModel \<Rightarrow> real list \<Rightarrow> error + pyfloat" where
  "log_probability_nestle_theta eval_spectrum log_likelihood self theta =
     (let ndim = length theta in
      log_probability_nestle eval_spectrum log_likelihood self theta
        (take ndim (known_parameters self)))"

text \<open>
  \<^verbatim>\<open>
  def log_prior_transform_nestle(self, x, x_name):
      if self.config['prior'][x_name]['prior_type'] == 'flat':
          a, b = self.config['prior'][x_name]['param']
          return x * (b - a) + a
      elif self.config['prior'][x_name]['prior_type'] == 'gauss':
          a, b = self.config['prior'][x_name]['range']
          m, s = self.config['prior'][x_name]['param']
          aprime = spsp.ndtr((a - m) / s)
          bprime = spsp.ndtr((b - m) / s)
          xprime = x * (bprime - aprime) + aprime
          res = m + s * spsp.ndtri(xprime)
          return res
      else:
          raise TypeError(err_message)
  \<close>
  \<^verbatim>\<open>spsp.ndtr\<close> and \<^verbatim>\<open>spsp.ndtri\<close> are scipy's normal distribution function and its
  inverse: parameters here. A missing dictionary key is a \<open>KeyError\<close>, and the division
  by a zero \<open>s\<close> a \<open>ZeroDivisionError\<close>.
\<close>

definition unknown_prior_message :: "string \<Rightarrow> string" where
  "unknown_prior_message t =
     ''unknown prior type '' @ [CHR 0x27] @ t @ [CHR 0x27] @ '', choose either gauss or flat''"

definition log_prior_transform_nestle ::
  "(real \<Rightarrow> real) \<Rightarrow> (real \<Rightarrow> real) \<Rightarrow> 'r NestleStatModel \<Rightarrow> real \<Rightarrow> string \<Rightarrow> error + real" where
  "log_prior_transform_nestle ndtr ndtri self x x_name =
     (case prior self x_name of
        None \<Rightarrow> Inl (KeyError x_name)
      | Some entry \<Rightarrow>
          if prior_type entry = ''flat'' then
            (case param entry of
               None \<Rightarrow> Inl (KeyError ''param'')
             | Some (a, b) \<Rightarrow> Inr (x * (b - a) + a))
          else if prior_type entry = ''gauss'' then
            (case prior_range entry of
               None \<Rightarrow> Inl (KeyError ''range'')
             | Some (a, b) \<Rightarrow>
                 (case param entry of
                    None \<Rightarrow> Inl (KeyError ''param'')
                  | Some (m, s) \<Rightarrow>
                      if s = 0 then Inl ZeroDivisionError
                      else
                        (let aprime = ndtr ((a - m) / s);
                             bprime = ndtr ((b - m) / s);
                             xprime = x * (bprime - aprime) + aprime;
                             res = m + s * ndtri xprime
                         in Inr res)))
          else Inl (TypeError (unknown_prior_message (prior_type entry))))"

text \<open>
  \<^verbatim>\<open>_log_prior_transform_nestle(self, theta)\<close>:
  \<^verbatim>\<open>[self.log_prior_transform_nestle(val, self.known_parameters[i])
     for i, val in enumerate(theta)]\<close>; the first failure ends the comprehension.
\<close>

fun log_prior_transform_nestle_theta ::
  "(real \<Rightarrow> real) \<Rightarrow> (real \<Rightarrow> real) \<Rightarrow> 'r NestleStatModel \<Rightarrow> string list \<Rightarrow> real list \<Rightarrow>
   error + real list" where
  "log_prior_transform_nestle_theta ndtr ndtri self names [] = Inr []"
| "log_prior_transform_nestle_theta ndtr ndtri self [] (val # theta) = Inl IndexError"
| "log_prior_transform_nestle_theta ndtr ndtri self (name # names) (val # theta) =
     (case log_prior_transform_nestle ndtr ndtri self val name of
        Inl e \<Rightarrow> Inl e
      | Inr v \<Rightarrow>
          (case log_prior_transform_nestle_theta ndtr ndtri self names theta of
             Inl e \<Rightarrow> Inl e
           | Inr vs \<Rightarrow> Inr (v # vs)))"

text \<open>
  \<^verbatim>\<open>run_nestle(self)\<close>, without its printing and timing:
  \<^verbatim>\<open>
  ndim = len(self.fit_parameters)
  assert self.fit_parameters == self.known_parameters[:ndim], assert_str
  try:
      self.result = nestle.sample(self._log_probability_nestle,
                                  self._log_prior_transform_nestle, ndim, ...)
  except ValueError as e:
      print(...)
      raise e
  self.log['did_run'] = True
  \<close>
  \<^verbatim>\<open>nestle.sample\<close> is the sampler library's entry point: the parameter \<open>sample\<close>, which
  is given the two callbacks and the dimension and returns a result or raises.
\<close>

definition run_nestle ::
  "((real list \<Rightarrow> error + pyfloat) \<Rightarrow> (real list \<Rightarrow> error + real list) \<Rightarrow> nat \<Rightarrow> error + 'r) \<Rightarrow>
   (real list \<Rightarrow> string list \<Rightarrow> error + real list) \<Rightarrow>
   (real list \<Rightarrow> real list \<Rightarrow> error + pyfloat) \<Rightarrow>
   (real \<Rightarrow> real) \<Rightarrow> (real \<Rightarrow> real) \<Rightarrow>
   'r NestleStatModel \<Rightarrow> error + 'r NestleStatModel" where
  "run_nestle sample eval_spectrum log_likelihood ndtr ndtri self =
     (let ndim = length (fit_parameters self) in
      if \<not> fit_parameters self = take ndim (known_parameters self) then Inl AssertionError
      else
        (case sample (log_probability_nestle_theta eval_spectrum log_likelihood self)
                (log_prior_transform_nestle_theta ndtr ndtri self (known_parameters self))
                ndim of
           Inl e \<Rightarrow> Inl e
         | Inr r \<Rightarrow> Inr (self\<lparr>result := Some r, did_run := True\<rparr>)))"


text \<open>
  scipy's \<^verbatim>\<open>ndtr\<close> computes the standard normal distribution function and \<^verbatim>\<open>ndtri\<close> its
  inverse. The distribution function is given here by its Maclaurin series,
  \<open>1 / 2 + (1 / sqrt (2 * pi)) * (\<Sum>k. (- 1 / 2) ^ k * z ^ (2 * k + 1) / (fact k * (2 * k + 1)))\<close>,
  and the quantile function as its inverse; they instantiate the parameters \<open>ndtr\<close> and
  \<open>ndtri\<close> in concrete instances.
\<close>

definition ndtr_coeff :: "nat \<Rightarrow> real" where
  "ndtr_coeff n =
     (if even n then 0
      else (- 1 / 2) ^ ((n - 1) div 2) / (fact ((n - 1) div 2) * real n) / sqrt (2 * pi))"

definition std_normal_cdf :: "real \<Rightarrow> real" where
  "std_normal_cdf z = 1 / 2 + (\<Sum>n. ndtr_coeff n * z ^ n)"

definition std_normal_quantile :: "real \<Rightarrow> real" where
  "std_normal_quantile p = (THE z. std_normal_cdf z = p)"

text \<open>
  A model for concrete instances: the first parameter names of the canonical list, a
  Gaussian prior on \<open>v_0\<close>, a flat prior on \<open>log_mass\<close> and a prior of an unknown type on
  \<open>k\<close>.
\<close>

definition example_model :: "unit NestleStatModel" where
  "example_model =
     \<lparr>known_parameters = [''log_mass'', ''log_cross_section'', ''v_0'', ''v_esc'', ''density''],
      fit_parameters = [''log_mass'', ''log_cross_section''],
      prior = [''log_mass'' \<mapsto> \<lparr>prior_type = ''flat'', param = Some (- 1, 5), prior_range = Some (- 1, 5)\<rparr>,
               ''v_0'' \<mapsto> \<lparr>prior_type = ''gauss'', param = Some (230, 30), prior_range = Some (80, 380)\<rparr>,
               ''k'' \<mapsto> \<lparr>prior_type = ''lognormal'', param = None, prior_range = None\<rparr>],
      benchmark_values = [3, 1],
      did_run = False,
      result = None\<rparr>"


subsection \<open>The detected spectrum of \<^verbatim>\<open>dddm\<close>\<close>

text \<open>Sequencing of calls that may raise: the second runs on what the first returned.\<close>

definition and_then :: "error + 'a \<Rightarrow> ('a \<Rightarrow> error + 'b) \<Rightarrow> error + 'b" where
  "and_then r f = (case r of Inl e \<Rightarrow> Inl e | Inr x \<Rightarrow> f x)"

text \<open>
  numpy's elementwise product of two arrays, with the broadcasting of an array of length
  one, and the in-place sum \<^verbatim>\<open>xs += ys\<close>, whose result has the shape of \<open>xs\<close>.
\<close>

definition np_mul :: "real list \<Rightarrow> real list \<Rightarrow> error + real list" where
  "np_mul xs ys =
     (if length xs = length ys then Inr (map2 (*) xs ys)
      else if length ys = 1 then Inr (map (\<lambda>x. x * hd ys) xs)
      else if length xs = 1 then Inr (map (\<lambda>y. hd xs * y) ys)
      else Inl (ValueError ''operands could not be broadcast together''))"

definition np_iadd :: "real list \<Rightarrow> real list \<Rightarrow> error + real list" where
  "np_iadd xs ys =
     (if length xs = length ys then Inr (map2 (+) xs ys)
      else if length ys = 1 then Inr (map (\<lambda>x. x + hd ys) xs)
      else Inl (ValueError ''operands could not be broadcast together''))"

text \<open>
  What \<^verbatim>\<open>_calculate_counts\<close> reads of its object. The methods \<^verbatim>\<open>spectrum_simple\<close>,
  \<^verbatim>\<open>background_function\<close> and \<^verbatim>\<open>resolution\<close> and the three numbers belong to classes
  that are not among the sources: they are fields.
\<close>

record detector =
  spectrum_simple :: "real list \<Rightarrow> real \<Rightarrow> real \<Rightarrow> real list"
  background_function :: "real list \<Rightarrow> real list"
  resolution :: "real list \<Rightarrow> real list"
  exposure_tonne_year :: real
  effective_exposure :: real
  energy_threshold_kev :: real

text \<open>
  \<^verbatim>\<open>
  def _calculate_counts(self, wimp_mass, cross_section, poisson,
                        bin_centers, bin_width, bin_edges):
      rates = self.spectrum_simple(bin_centers, wimp_mass=wimp_mass,
                                   cross_section=cross_section)
      rates += self.background_function(bin_centers) * (self.exposure_tonne_year /
                                                        self.effective_exposure)
      sigma = self.resolution(bin_centers)
      rates = np.array(smear_signal(rates, bin_centers, sigma, bin_width))
      rates = self.above_threshold(rates, bin_edges, self.energy_threshold_kev)
      rates = rates * bin_width * self.effective_exposure
      return rates
  \<close>
  The division of the two exposures is a division of Python numbers. The result is the
  warnings emitted and the array returned.
\<close>

definition calculate_counts ::
  "detector \<Rightarrow> real \<Rightarrow> real \<Rightarrow> bool \<Rightarrow> real list \<Rightarrow> real list \<Rightarrow> (real \<times> real) list \<Rightarrow>
   error + (warning list \<times> real list)" where
  "calculate_counts self wimp_mass cross_section poisson bin_centers bin_width bin_edges =
     (let rates = spectrum_simple self bin_centers wimp_mass cross_section;
          bg = background_function self bin_centers
      in if effective_exposure self = 0 then Inl ZeroDivisionError
         else
           (case np_iadd rates
                   (map (\<lambda>b. b * (exposure_tonne_year self / effective_exposure self)) bg) of
              Inl e \<Rightarrow> Inl e
            | Inr rates \<Rightarrow>
                (let sigma = resolution self bin_centers in
                 case smear_signal rates bin_centers sigma bin_width of
                   Inl e \<Rightarrow> Inl e
                 | Inr (warnings, rates) \<Rightarrow>
                     (case above_threshold rates bin_edges (energy_threshold_kev self) of
                        Inl e \<Rightarrow> Inl e
                      | Inr rates \<Rightarrow>
                          (case np_mul rates bin_width of
                             Inl e \<Rightarrow> Inl e
                           | Inr rates \<Rightarrow>
                               Inr (warnings,
                                    map (\<lambda>r. r * effective_exposure self) rates))))))"

subsection \<open>The detected spectrum of \<^verbatim>\<open>DirectDmTargets\<close>\<close>

text \<open>Arithmetic on floats that may be NaN: the re-binned events.\<close>

fun fscale :: "real \<Rightarrow> pyfloat \<Rightarrow> pyfloat" where
  "fscale c (Fin x) = Fin (x * c)"
| "fscale c NaN = NaN"


text \<open>
  One entry of the dictionary \<^verbatim>\<open>experiment\<close>: the keys \<^verbatim>\<open>'type'\<close>, \<^verbatim>\<open>'exp'\<close>,
  \<^verbatim>\<open>'exp_eff'\<close>, \<^verbatim>\<open>'E_thr'\<close>, \<^verbatim>\<open>'res'\<close> and \<^verbatim>\<open>'bg_func'\<close> (\<open>exp_total\<close> is the key
  \<^verbatim>\<open>'exp'\<close>, \<open>exp_type\<close> the key \<^verbatim>\<open>'type'\<close>, \<open>exp_res\<close> the key \<^verbatim>\<open>'res'\<close>). A background function may raise, as
  \<^verbatim>\<open>migdal_background_superCDMS_Ge_HV\<close> does.
\<close>

record experiment_entry =
  exp_type :: string
  exp_total :: real
  exp_eff :: real
  E_thr :: real
  exp_res :: "real list \<Rightarrow> real list"
  bg_func :: "real \<Rightarrow> real \<Rightarrow> nat \<Rightarrow> error + real list"

text \<open>
  The fields of the legacy \<^verbatim>\<open>DetectorSpectrum\<close> (a \<^verbatim>\<open>GenSpectrum\<close>) that the modelled
  methods read or write. \<open>the_experiment\<close> is \<^verbatim>\<open>self.experiment\<close>; \<open>add_background\<close> is set
  when the object is made, to whether \<^verbatim>\<open>'bg'\<close> occurs in the experiment's \<^verbatim>\<open>'type'\<close>.
\<close>

record DetectorSpectrum =
  mw :: real
  sigma_nucleon :: real
  E_min :: real
  E_max :: real
  n_bins :: nat
  n_bins_result :: nat
  add_background :: bool
  the_experiment :: experiment_entry

text \<open>\<^verbatim>\<open>self.rebin_factor = 10\<close>, set when the object is made.\<close>

definition rebin_factor :: nat where
  "rebin_factor = 10"

text \<open>
  Modelled from the spec: \<^verbatim>\<open>get_bins\<close> and \<^verbatim>\<open>GenSpectrum.get_bin_centers\<close> are defined in
  \<^verbatim>\<open>halo.py\<close>, which is not among the sources. The spec's EnergyBinning: the range from
  \<open>E_min\<close> to \<open>E_max\<close> split into \<open>N\<close> bins of equal width, given as pairs (left, right) of
  edges; the bin centers are the midpoints of the pairs.
\<close>

definition get_bins :: "real \<Rightarrow> real \<Rightarrow> nat \<Rightarrow> (real \<times> real) list" where
  "get_bins e_min e_max n =
     map (\<lambda>i. (e_min + real i * ((e_max - e_min) / real n),
                e_min + real (Suc i) * ((e_max - e_min) / real n))) [0..<n]"

definition get_bin_centers :: "DetectorSpectrum \<Rightarrow> real list" where
  "get_bin_centers self =
     map (\<lambda>(left, right). (left + right) / 2) (get_bins (E_min self) (E_max self) (n_bins self))"

text \<open>\<^verbatim>\<open>np.diff\<close>: the differences of neighbouring entries.\<close>

definition np_diff :: "real list \<Rightarrow> real list" where
  "np_diff xs = map2 (\<lambda>a b. b - a) xs (tl xs)"

text \<open>
  \<^verbatim>\<open>
  def chuck_integration(rates, energies, bins):
      res = np.zeros(len(bins))
      for i, bin_i in enumerate(bins):
          mask = (energies > bin_i[0]) & (energies < bin_i[1])
          bin_width = np.average(np.diff(energies[mask]))
          res[i] = np.sum(rates[mask] * bin_width)
      return res
  \<close>
  A mask of another length than \<open>rates\<close> is numpy's \<open>IndexError\<close>. The average of no
  differences is NaN: a bin with one energy inside it gets NaN, a bin with none the empty
  sum.
\<close>

definition chuck_bin :: "real list \<Rightarrow> real list \<Rightarrow> real \<times> real \<Rightarrow> pyfloat" where
  "chuck_bin rates energies bin_i =
     (let inside = filter (\<lambda>(r, e). e > fst bin_i \<and> e < snd bin_i) (zip rates energies);
          diffs = np_diff (map snd inside)
      in if inside = [] then Fin 0
         else if diffs = [] then NaN
         else Fin (\<Sum>r \<leftarrow> map fst inside. r * np_mean diffs))"

definition chuck_integration ::
  "real list \<Rightarrow> real list \<Rightarrow> (real \<times> real) list \<Rightarrow> error + pyfloat list" where
  "chuck_integration rates energies bins =
     (if bins \<noteq> [] \<and> length rates \<noteq> length energies then Inl IndexError
      else Inr (map (chuck_bin rates energies) bins))"

text \<open>
  \<^verbatim>\<open>
  def compute_detected_spectrum(self):
      self.n_bins_result = self.n_bins
      self.n_bins = self.n_bins * self.rebin_factor
      rates = self.spectrum_simple([self.mw, self.sigma_nucleon])
      if self.add_background:
          rates += self.experiment['bg_func'](self.E_min, self.E_max, self.n_bins) * (
                  self.experiment['exp'] / self.experiment['exp_eff'])
      energies = self.get_bin_centers()
      rates = self.above_threshold(rates, energies)
      result_bins = get_bins(self.E_min, self.E_max, self.n_bins_result)
      sigma = self.experiment['res'](energies)
      bin_width = np.mean(np.diff(energies))
      events = np.array(smear_signal(rates, energies, sigma, bin_width))
      events = self.chuck_integration(events, energies, result_bins)
      return events * self.experiment['exp_eff']
  \<close>
  \<^verbatim>\<open>GenSpectrum.spectrum_simple\<close> is a method of \<^verbatim>\<open>halo.py\<close>: the parameter
  \<open>legacy_spectrum_simple\<close>, given the object (with its new number of bins) and the two
  benchmark values. The object is returned with its two bin counts updated. With no bins
  at all the mean of no differences is never used by the iterations that follow.
\<close>

definition compute_detected_spectrum ::
  "(DetectorSpectrum \<Rightarrow> real list \<Rightarrow> real list) \<Rightarrow> DetectorSpectrum \<Rightarrow>
   error + (DetectorSpectrum \<times> pyfloat list)" where
  "compute_detected_spectrum legacy_spectrum_simple self0 =
     (let self = self0\<lparr>n_bins_result := n_bins self0, n_bins := n_bins self0 * rebin_factor\<rparr>;
          rates = legacy_spectrum_simple self [mw self, sigma_nucleon self];
          ex = the_experiment self
      in and_then
           (if add_background self then
              and_then (bg_func ex (E_min self) (E_max self) (n_bins self)) (\<lambda>bg.
                if exp_eff ex = 0 then Inl ZeroDivisionError
                else np_iadd rates (map (\<lambda>b. b * (exp_total ex / exp_eff ex)) bg))
            else Inr rates) (\<lambda>rates.
         let energies = get_bin_centers self in
         and_then (legacy_above_threshold (E_thr ex) rates energies) (\<lambda>rates.
         let result_bins = get_bins (E_min self) (E_max self) (n_bins_result self);
             sigma = exp_res ex energies;
             bin_width = np_mean (np_diff energies) in
         and_then (legacy_smear_signal rates energies sigma bin_width) (\<lambda>events.
         and_then (chuck_integration events energies result_bins) (\<lambda>events.
         Inr (self, map (fscale (exp_eff ex)) events))))))"






subsection \<open>The order of the stages\<close>

text \<open>
  The stages of the detected-spectrum computation in the order that is claimed of them:
  background injection, Gaussian smearing, threshold cut, integration over the bins,
  scaling by the effective exposure. First on the inputs of \<^verbatim>\<open>_calculate_counts\<close>.
\<close>

definition inject_background :: "detector \<Rightarrow> real list \<Rightarrow> real list \<Rightarrow> error + real list" where
  "inject_background self bin_centers rates =
     (if effective_exposure self = 0 then Inl ZeroDivisionError
      else np_iadd rates
             (map (\<lambda>b. b * (exposure_tonne_year self / effective_exposure self))
                (background_function self bin_centers)))"

definition counts_in_stated_order ::
  "detector \<Rightarrow> real \<Rightarrow> real \<Rightarrow> real list \<Rightarrow> real list \<Rightarrow> (real \<times> real) list \<Rightarrow>
   error + (warning list \<times> real list)" where
  "counts_in_stated_order self wimp_mass cross_section bin_centers bin_width bin_edges =
     and_then (inject_background self bin_centers
                 (spectrum_simple self bin_centers wimp_mass cross_section)) (\<lambda>with_background.
     and_then (smear_signal with_background bin_centers (resolution self bin_centers) bin_width)
       (\<lambda>(warnings, smeared).
     and_then (above_threshold smeared bin_edges (energy_threshold_kev self)) (\<lambda>above.
     and_then (np_mul above bin_width) (\<lambda>integrated.
     Inr (warnings, map (\<lambda>r. r * effective_exposure self) integrated)))))"

text \<open>
  Then on the legacy object: once in the order that is claimed, once with the threshold
  cut before the smearing. \<open>rebinned\<close> is the object after the first two assignments of
  \<^verbatim>\<open>compute_detected_spectrum\<close>.
\<close>

definition rebinned :: "DetectorSpectrum \<Rightarrow> DetectorSpectrum" where
  "rebinned self = self\<lparr>n_bins_result := n_bins self, n_bins := n_bins self * rebin_factor\<rparr>"

definition legacy_inject_background ::
  "(DetectorSpectrum \<Rightarrow> real list \<Rightarrow> real list) \<Rightarrow> DetectorSpectrum \<Rightarrow> error + real list" where
  "legacy_inject_background legacy_spectrum_simple self =
     (let rates = legacy_spectrum_simple self [mw self, sigma_nucleon self];
          ex = the_experiment self
      in if add_background self then
           and_then (bg_func ex (E_min self) (E_max self) (n_bins self)) (\<lambda>bg.
             if exp_eff ex = 0 then Inl ZeroDivisionError
             else np_iadd rates (map (\<lambda>b. b * (exp_total ex / exp_eff ex)) bg))
         else Inr rates)"

definition legacy_smear :: "DetectorSpectrum \<Rightarrow> real list \<Rightarrow> error + real list" where
  "legacy_smear self rates =
     (let energies = get_bin_centers self in
      legacy_smear_signal rates energies (exp_res (the_experiment self) energies)
        (np_mean (np_diff energies)))"

definition legacy_cut :: "DetectorSpectrum \<Rightarrow> real list \<Rightarrow> error + real list" where
  "legacy_cut self rates =
     legacy_above_threshold (E_thr (the_experiment self)) rates (get_bin_centers self)"

definition legacy_rebin_and_scale ::
  "DetectorSpectrum \<Rightarrow> real list \<Rightarrow> error + (DetectorSpectrum \<times> pyfloat list)" where
  "legacy_rebin_and_scale self events =
     and_then (chuck_integration events (get_bin_centers self)
                 (get_bins (E_min self) (E_max self) (n_bins_result self))) (\<lambda>rebinned_events.
     Inr (self, map (fscale (exp_eff (the_experiment self))) rebinned_events))"

definition spectrum_in_stated_order ::
  "(DetectorSpectrum \<Rightarrow> real list \<Rightarrow> real list) \<Rightarrow> DetectorSpectrum \<Rightarrow>
   error + (DetectorSpectrum \<times> pyfloat list)" where
  "spectrum_in_stated_order legacy_spectrum_simple self0 =
     (let self = rebinned self0 in
      and_then (legacy_inject_background legacy_spectrum_simple self) (\<lambda>with_background.
      and_then (legacy_smear self with_background) (\<lambda>smeared.
      and_then (legacy_cut self smeared) (\<lambda>above.
      legacy_rebin_and_scale self above))))"

definition spectrum_cut_before_smear ::
  "(DetectorSpectrum \<Rightarrow> real list \<Rightarrow> real list) \<Rightarrow> DetectorSpectrum \<Rightarrow>
   error + (DetectorSpectrum \<times> pyfloat list)" where
  "spectrum_cut_before_smear legacy_spectrum_simple self0 =
     (let self = rebinned self0 in
      and_then (legacy_inject_background legacy_spectrum_simple self) (\<lambda>with_background.
      and_then (legacy_cut self with_background) (\<lambda>above.
      and_then (legacy_smear self above) (\<lambda>smeared.
      legacy_rebin_and_scale self smeared))))"

text \<open>
  Concrete inputs. A legacy detector with one result bin from 0 to 10 keV, a threshold of
  5 keV, a resolution of 1 keV everywhere and no background; a spectrum model with all
  its rate in the lowest of the fine bins, and one with a negative rate in every bin.
\<close>

definition example_spectrum :: DetectorSpectrum where
  "example_spectrum =
     \<lparr>mw = 50, sigma_nucleon = 1 / 10 ^ 45, E_min = 0, E_max = 10, n_bins = 1, n_bins_result = 1,
      add_background = False,
      the_experiment = \<lparr>exp_type = ''SI'', exp_total = 5, exp_eff = 2, E_thr = 5,
        exp_res = map (\<lambda>E. 1), bg_func = (\<lambda>e_min e_max n. Inr (replicate n 0))\<rparr>\<rparr>"

definition low_spectrum :: "DetectorSpectrum \<Rightarrow> real list \<Rightarrow> real list" where
  "low_spectrum self vals = 1 # replicate (n_bins self - 1) 0"


text \<open>
  A detector of \<^verbatim>\<open>dddm\<close> with two bins, a flat spectrum of rate 4, no background and a
  resolution of 2 keV everywhere.
\<close>

definition example_detector :: detector where
  "example_detector =
     \<lparr>spectrum_simple = (\<lambda>bin_centers wimp_mass cross_section. map (\<lambda>E. 4) bin_centers),
      background_function = map (\<lambda>E. 0),
      resolution = map (\<lambda>E. 2),
      exposure_tonne_year = 5,
      effective_exposure = 2,
      energy_threshold_kev = 1\<rparr>"

text \<open>
  Stand-ins for the parameters in concrete instances: a spectrum evaluation that returns
  the parameter values as counts, a likelihood that is NaN everywhere, and a sampler that
  evaluates the likelihood at the one point \<open>[2, - 45]\<close> and lets its error through.
\<close>

definition echo_spectrum :: "real list \<Rightarrow> string list \<Rightarrow> error + real list" where
  "echo_spectrum vals names = Inr vals"

definition nan_likelihood :: "real list \<Rightarrow> real list \<Rightarrow> error + pyfloat" where
  "nan_likelihood bench rate = Inr NaN"

definition one_point_sample ::
  "(real list \<Rightarrow> error + pyfloat) \<Rightarrow> (real list \<Rightarrow> error + real list) \<Rightarrow> nat \<Rightarrow> error + unit" where
  "one_point_sample loglike ptform ndim =
     (case loglike [2, - 45] of Inl e \<Rightarrow> Inl e | Inr ll \<Rightarrow> Inr ())"


section \<open>Properties\<close>

subsection \<open>The threshold cut\<close>

lemma above_threshold_not_ValueError:
  "above_threshold rates es T \<noteq> Inl (ValueError m)"
  by (induction rates es T rule: above_threshold.induct) (auto split: sum.splits)


lemma map2_cut_bin_above:
  "\<forall>e \<in> set es. T \<le> fst e \<Longrightarrow> length rates \<le> length es \<Longrightarrow>
   map2 (cut_bin T) rates es = rates"
proof (induction rates arbitrary: es)
  case Nil
  then show ?case by simp
next
  case (Cons r rates)
  then obtain e es' where es: "es = e # es'" by (cases es) auto
  with Cons show ?case by (auto simp: cut_bin_def split: prod.splits)
qed

lemma above_threshold_ordered:
  "ordered_bins es \<Longrightarrow> length rates \<le> length es \<Longrightarrow>
   above_threshold rates es T = Inr (map2 (cut_bin T) rates es)"
proof (induction rates es T rule: above_threshold.induct)
  case (1 es T)
  then show ?case by simp
next
  case (2 r rates T)
  then show ?case by simp
next
  case (3 r rates L R es T)
  from "3.prems" have ord: "ordered_bins es" and len: "length rates \<le> length es"
    and LR: "L < R" and above: "\<forall>e \<in> set es. L \<le> fst e"
    by (auto simp: ordered_bins_def)
  show ?case
  proof (cases "T \<le> L")
    case True
    with above have "\<forall>e \<in> set es. T \<le> fst e" by auto
    from map2_cut_bin_above [OF this len] True show ?thesis
      by (simp add: cut_bin_def)
  next
    case False
    with "3.IH" ord len LR show ?thesis
      by (auto simp: cut_bin_def Let_def)
  qed
qed

lemma above_threshold_idem:
  "\<forall>(L, R) \<in> set es. \<not> (L < T \<and> T < R) \<Longrightarrow>
   twice (\<lambda>r. above_threshold r es T) rates = above_threshold rates es T"
proof (induction rates es T rule: above_threshold.induct)
  case (3 r rates L R es T)
  from "3.prems" have rest: "\<forall>(L, R) \<in> set es. \<not> (L < T \<and> T < R)"
    and here: "\<not> (L < T \<and> T < R)" by auto
  show ?case
  proof (cases "T \<le> L")
    case True
    then show ?thesis by (simp add: twice_def)
  next
    case nbreak: False
    with here have zero: "R \<le> T" by auto
    from "3.IH"(1) [OF nbreak zero rest] nbreak zero show ?thesis
      by (auto simp: twice_def split: sum.splits)
  qed
qed (simp_all add: twice_def)

lemma legacy_above_threshold_idem:
  "twice (\<lambda>r. legacy_above_threshold T r energies) rates =
   legacy_above_threshold T rates energies"
proof (cases "length energies = length rates")
  case True
  then have "map2 (\<lambda>r e. if e < T then 0 else r)
      (map2 (\<lambda>r e. if e < T then 0 else r) rates energies) energies
     = map2 (\<lambda>r e. if e < T then 0 else r) rates energies"
    by (induction rates energies rule: list_induct2') auto
  with True show ?thesis by (simp add: twice_def legacy_above_threshold_def)
next
  case False
  then show ?thesis by (simp add: twice_def legacy_above_threshold_def)
qed



lemma map2_cut_bin_nth:
  "i < length rates \<Longrightarrow> length rates \<le> length es \<Longrightarrow>
   map2 (cut_bin T) rates es ! i = cut_bin T (rates ! i) (es ! i)"
  by simp

lemma ordered_bins_nth:
  "ordered_bins es \<Longrightarrow> i < length es \<Longrightarrow> fst (es ! i) < snd (es ! i)"
  by (auto simp: ordered_bins_def list_all_length split: prod.splits)

lemma ordered_bins_later:
  assumes "ordered_bins es" "i < length es"
  shows "\<forall>e \<in> set (drop i es). fst (es ! i) \<le> fst e"
proof
  fix e assume "e \<in> set (drop i es)"
  then obtain k where k: "k < length es - i" "e = es ! (i + k)"
    by (auto simp: in_set_conv_nth)
  from assms(1) have "sorted (map fst es)" by (simp add: ordered_bins_def)
  from sorted_nth_mono [OF this, of i "i + k"] k assms(2)
  show "fst (es ! i) \<le> fst e" by simp
qed

text \<open>
  C2, as amended. For bin edges in increasing order with every left edge strictly below
  its right edge (one row per rate at least) and every threshold \<open>T\<close>, the threshold cut
  returns the rates with every bin of right edge at most \<open>T\<close> set to zero, every bin with
  \<open>L \<le> T \<le> R\<close> scaled by \<open>(R - T) / (R - L)\<close>, and every bin of left edge at least \<open>T\<close>, with
  all bins after it, as it was. No bin edges at all, ordered or not, make the cut raise
  its \<open>ValueError\<close>: a degenerate, inverted or misplaced bin goes through the same three
  tests and is kept, zeroed or scaled.
\<close>

theorem above_threshold_cut:
  assumes "ordered_bins e_bin_edges" "length rates \<le> length e_bin_edges"
  shows "(\<exists>out. above_threshold rates e_bin_edges T = Inr out \<and> length out = length rates \<and>
            (\<forall>i < length rates. case e_bin_edges ! i of (L, R) \<Rightarrow>
               (R \<le> T \<longrightarrow> out ! i = 0) \<and>
               (L \<le> T \<and> T \<le> R \<longrightarrow> out ! i = rates ! i * ((R - T) / (R - L))) \<and>
               (L \<ge> T \<longrightarrow> out ! i = rates ! i \<and> drop i out = drop i rates))) \<and>
         (\<forall>m. above_threshold rates any_edges T \<noteq> Inl (ValueError m))"
proof -
  let ?out = "map2 (cut_bin T) rates e_bin_edges"
  have out: "above_threshold rates e_bin_edges T = Inr ?out"
    using assms by (rule above_threshold_ordered)
  have len: "length ?out = length rates" using assms(2) by simp
  have bins: "case e_bin_edges ! i of (L, R) \<Rightarrow>
               (R \<le> T \<longrightarrow> ?out ! i = 0) \<and>
               (L \<le> T \<and> T \<le> R \<longrightarrow> ?out ! i = rates ! i * ((R - T) / (R - L))) \<and>
               (L \<ge> T \<longrightarrow> ?out ! i = rates ! i \<and> drop i ?out = drop i rates)"
    if i: "i < length rates" for i
  proof -
    obtain L R where e: "e_bin_edges ! i = (L, R)" by (cases "e_bin_edges ! i")
    from i assms(2) have i': "i < length e_bin_edges" by simp
    from ordered_bins_nth [OF assms(1) i'] e have LR: "L < R" by simp
    have nth: "?out ! i = cut_bin T (rates ! i) (L, R)"
      using map2_cut_bin_nth [OF i assms(2)] e by simp
    have zero: "?out ! i = 0" if "R \<le> T"
      using that LR nth by (simp add: cut_bin_def)
    have scale: "?out ! i = rates ! i * ((R - T) / (R - L))" if "L \<le> T" "T \<le> R"
      using that LR nth by (auto simp: cut_bin_def)
    have keep: "?out ! i = rates ! i" if "L \<ge> T"
      using that nth by (simp add: cut_bin_def)
    have rest: "drop i ?out = drop i rates" if "L \<ge> T"
    proof -
      from ordered_bins_later [OF assms(1) i'] e that
      have "\<forall>e \<in> set (drop i e_bin_edges). T \<le> fst e" by auto
      moreover have "length (drop i rates) \<le> length (drop i e_bin_edges)"
        using assms(2) by simp
      ultimately have "map2 (cut_bin T) (drop i rates) (drop i e_bin_edges) = drop i rates"
        by (rule map2_cut_bin_above)
      then show ?thesis by (simp add: drop_map drop_zip)
    qed
    from zero scale keep rest show ?thesis by (simp add: e)
  qed
  from out len bins above_threshold_not_ValueError show ?thesis by blast
qed

theorem above_threshold_cut_witness:
  "ordered_bins [(0, 1), (1, 2), (2, 3)] \<and>
   above_threshold [4, 4, 4] [(0, 1), (1, 2), (2, 3)] (5 / 4) = Inr [0, 3, 4]"
proof -
  have h: "ordered_bins [(0, 1), (1, 2), (2, 3)]" by (simp add: ordered_bins_def)
  have l: "length [4, 4, 4 :: real] \<le> length [(0, 1), (1, 2), (2, 3 :: real)]" by simp
  from above_threshold_cut [OF h l, of "5 / 4"]
  obtain out where "above_threshold [4, 4, 4] [(0, 1), (1, 2), (2, 3)] (5 / 4) = Inr out"
    by blast
  with h show ?thesis by simp
qed

text \<open>
  C2 as stated fails in its last clause: a bin whose left edge is above its right edge,
  or equal to it, raises nothing.
\<close>

theorem above_threshold_inverted_bin_accepted:
  "\<not> ordered_bins [(2, 1)] \<and> above_threshold [1] [(2, 1)] 3 = Inr [0] \<and>
   \<not> ordered_bins [(1, 1)] \<and> above_threshold [1] [(1, 1)] 1 = Inr [1]"
  by (simp add: ordered_bins_def)

text \<open>
  C3, as amended. The threshold cut of \<^verbatim>\<open>dddm\<close> applied twice gives what it gives applied
  once whenever no bin has the threshold strictly between its edges; the hard cut of
  \<^verbatim>\<open>DirectDmTargets\<close> is idempotent on every input.
\<close>

theorem above_threshold_idempotent_off_straddle:
  "((\<forall>(L, R) \<in> set e_bin_edges. \<not> (L < T \<and> T < R)) \<longrightarrow>
      twice (\<lambda>r. above_threshold r e_bin_edges T) rates = above_threshold rates e_bin_edges T) \<and>
   twice (\<lambda>r. legacy_above_threshold T r energies) rates = legacy_above_threshold T rates energies"
  using above_threshold_idem legacy_above_threshold_idem by blast

theorem above_threshold_idempotent_off_straddle_witness:
  "list_all (\<lambda>(L, R). \<not> (L < 1 \<and> 1 < R)) [(0 :: real, 1 :: real), (1, 2)] \<and>
   twice (\<lambda>r. above_threshold r [(0, 1), (1, 2)] 1) [3, 5] = Inr [0, 5] \<and>
   twice (\<lambda>r. legacy_above_threshold 1 r [1 / 2, 3 / 2]) [3, 5] = Inr [0, 5]"
  using above_threshold_idempotent_off_straddle [of "[(0, 1), (1, 2)]" 1 "[3, 5]" "[1 / 2, 3 / 2]"]
  by (simp add: legacy_above_threshold_def)

text \<open>
  C3 as stated fails for the cut of \<^verbatim>\<open>dddm\<close>: a bin \<open>(0, 2)\<close> with the threshold \<open>1\<close> inside
  it is halved by each application.
\<close>

theorem above_threshold_not_idempotent:
  "above_threshold [1] [(0, 2)] 1 = Inr [1 / 2] \<and>
   twice (\<lambda>r. above_threshold r [(0, 2)] 1) [1] = Inr [1 / 4]"
  by (simp add: twice_def)

subsection \<open>Gaussian smearing\<close>

lemma smear_row_sum:
  "\<forall>j \<in> set js. smear_term rate energy sigma bw i j = Inr (g j) \<Longrightarrow>
   smear_row rate energy sigma bw i js res = Inr (res + (\<Sum>j \<leftarrow> js. g j))"
  by (induction js arbitrary: res) (auto simp: algebra_simps)

lemma length_fold_update [simp]:
  "length (fold (\<lambda>i b. b[i := f i]) is buf) = length buf"
  by (induction "is" arbitrary: buf) auto

lemma fold_update_nth:
  "k < length buf \<Longrightarrow>
   fold (\<lambda>i b. b[i := f i]) [0..<n] buf ! k = (if k < n then f k else buf ! k)"
  by (induction n) (auto simp: nth_list_update less_Suc_eq)

lemma smear_rows_fold:
  "\<forall>i \<in> set is. i < length buf \<and>
       smear_row rate energy sigma bw i [0..<length rate] 0 = Inr (f i) \<Longrightarrow>
   smear_rows rate energy sigma bw is buf = Inr (fold (\<lambda>i b. b[i := f i]) is buf)"
  by (induction "is" arbitrary: buf) auto

lemma fold_update_all:
  "fold (\<lambda>i b. b[i := f i]) [0..<n] (replicate n z) = map f [0..<n]"
  by (rule nth_equalityI) (simp_all add: fold_update_nth)

lemma smear_term_ok:
  assumes "length energy = length rate" "length sigma = length rate"
    "length bw = length rate" "0 \<notin> set sigma" "j < length rate"
  shows "smear_term rate energy sigma bw i j =
    Inr (gauss_term (bw ! j) (rate ! j) (sigma ! j) (energy ! i) (energy ! j))"
proof -
  from assms have "sigma ! j \<in> set sigma" by simp
  with assms have "sigma ! j \<noteq> 0" by metis
  with assms show ?thesis by (simp add: smear_term_def)
qed

lemma smear_signal_loop_convolution:
  assumes "length energy = length rate" "length sigma = length rate"
    "length bw = length rate" "0 \<notin> set sigma"
  shows "smear_signal_loop rate energy sigma bw (replicate (length rate) 0) =
    Inr (convolution rate energy sigma bw)"
proof -
  let ?g = "\<lambda>i j. gauss_term (bw ! j) (rate ! j) (sigma ! j) (energy ! i) (energy ! j)"
  let ?f = "\<lambda>i. \<Sum>j \<leftarrow> [0..<length rate]. ?g i j"
  have row: "smear_row rate energy sigma bw i [0..<length rate] 0 = Inr (?f i)" for i
    using smear_row_sum [of "[0..<length rate]" rate energy sigma bw i "?g i" 0]
      smear_term_ok [OF assms] by simp
  have "smear_rows rate energy sigma bw [0..<length energy] (replicate (length rate) 0)
      = Inr (fold (\<lambda>i b. b[i := ?f i]) [0..<length energy] (replicate (length rate) 0))"
    by (rule smear_rows_fold) (simp add: row assms)
  then show ?thesis
    by (simp add: smear_signal_loop_def convolution_def assms fold_update_all)
qed

lemma gauss_term_nonneg: "0 \<le> bw \<Longrightarrow> 0 \<le> r \<Longrightarrow> 0 < s \<Longrightarrow> 0 \<le> gauss_term bw r s a b"
  by (simp add: gauss_term_def)

lemma convolution_nonneg:
  assumes "\<forall>r \<in> set rate. 0 \<le> r" "\<forall>s \<in> set sigma. 0 < s" "\<forall>b \<in> set bw. 0 \<le> b"
    "length sigma = length rate" "length bw = length rate"
  shows "\<forall>x \<in> set (convolution rate energy sigma bw). 0 \<le> x"
  using assms by (auto simp: convolution_def intro!: sum_list_nonneg gauss_term_nonneg)


lemma legacy_smear_row_sum:
  "\<forall>j \<in> set js. legacy_smear_term rate energy sigma bw i j = Inr (g j) \<Longrightarrow>
   legacy_smear_row rate energy sigma bw i js res = Inr (res + (\<Sum>j \<leftarrow> js. g j))"
  by (induction js arbitrary: res) (auto simp: algebra_simps)

lemma legacy_smear_rows_map:
  "\<forall>i \<in> set is. legacy_smear_row rate energy sigma bw i [0..<length rate] 0 = Inr (f i) \<Longrightarrow>
   legacy_smear_rows rate energy sigma bw is acc = Inr (acc @ map f is)"
  by (induction "is" arbitrary: acc) auto

lemma legacy_smear_term_ok:
  assumes "length energy = length rate" "length sigma = length rate"
    "0 \<notin> set sigma" "j < length rate"
  shows "legacy_smear_term rate energy sigma bw i j =
    Inr (gauss_term bw (rate ! j) (sigma ! j) (energy ! i) (energy ! j))"
proof -
  from assms have "sigma ! j \<in> set sigma" by simp
  with assms have "sigma ! j \<noteq> 0" by metis
  with assms show ?thesis by (simp add: legacy_smear_term_def)
qed

lemma legacy_smear_signal_convolution:
  assumes "length energy = length rate" "length sigma = length rate" "0 \<notin> set sigma"
  shows "legacy_smear_signal rate energy sigma bw =
    Inr (convolution rate energy sigma (replicate (length rate) bw))"
proof -
  let ?g = "\<lambda>i j. gauss_term bw (rate ! j) (sigma ! j) (energy ! i) (energy ! j)"
  let ?f = "\<lambda>i. \<Sum>j \<leftarrow> [0..<length rate]. ?g i j"
  have row: "legacy_smear_row rate energy sigma bw i [0..<length rate] 0 = Inr (?f i)" for i
    using legacy_smear_row_sum [of "[0..<length rate]" rate energy sigma bw i "?g i" 0]
      legacy_smear_term_ok [OF assms] by simp
  have "legacy_smear_rows rate energy sigma bw [0..<length energy] []
      = Inr ([] @ map ?f [0..<length energy])"
    by (rule legacy_smear_rows_map) (simp add: row)
  moreover have "(\<Sum>j \<leftarrow> [0..<length rate]. ?g i j) =
     (\<Sum>j \<leftarrow> [0..<length rate].
        gauss_term (replicate (length rate) bw ! j) (rate ! j) (sigma ! j) (energy ! i) (energy ! j))" for i
    by (rule arg_cong [where f = sum_list]) simp
  ultimately show ?thesis
    by (simp add: legacy_smear_signal_def convolution_def)
qed

lemma np_any_less_same_length:
  "length xs = length ys \<Longrightarrow> np_any_less xs ys = Inr (\<exists>j < length xs. xs ! j < ys ! j)"
  by (auto simp: np_any_less_def list_ex_iff set_zip)




lemma smear_signal_returns:
  assumes "length energy = length rate" "length sigma = length rate"
    "length bin_width = length rate" "0 \<notin> set sigma"
  shows "\<exists>ws out. smear_signal rate energy sigma bin_width = Inr (ws, out) \<and>
           length out = length rate"
proof (cases "\<exists>j < length sigma. sigma ! j < bin_width ! j")
  case True
  with assms np_any_less_same_length [of sigma bin_width] show ?thesis
    by (simp add: smear_signal_def)
next
  case False
  with assms np_any_less_same_length [of sigma bin_width]
    smear_signal_loop_convolution [of energy rate sigma bin_width]
  have "smear_signal rate energy sigma bin_width =
      Inr ([], convolution rate energy sigma bin_width)"
    by (simp add: smear_signal_def)
  moreover have "length (convolution rate energy sigma bin_width) = length rate"
    using assms by (simp add: convolution_def)
  ultimately show ?thesis by simp
qed

lemma smear_row_nonneg:
  "smear_row rate energy sigma bw i js acc = Inr out \<Longrightarrow> 0 \<le> acc \<Longrightarrow>
   \<forall>b \<in> set bw. 0 \<le> b \<Longrightarrow> \<forall>r \<in> set rate. 0 \<le> r \<Longrightarrow> \<forall>s \<in> set sigma. 0 < s \<Longrightarrow>
   \<forall>j \<in> set js. j < length rate \<Longrightarrow> 0 \<le> out"
proof (induction js arbitrary: acc)
  case Nil
  then show ?case by simp
next
  case (Cons j js)
  from Cons.prems(1) obtain t where t: "smear_term rate energy sigma bw i j = Inr t"
    and rest: "smear_row rate energy sigma bw i js (acc + t) = Inr out"
    by (auto split: sum.splits)
  from t have "j < length sigma" "j < length bw"
    and tv: "t = gauss_term (bw ! j) (rate ! j) (sigma ! j) (energy ! i) (energy ! j)"
    by (auto simp: smear_term_def split: if_splits)
  with Cons.prems have "0 \<le> t"
    by (auto intro!: gauss_term_nonneg)
  with Cons.prems have "0 \<le> acc + t" by simp
  from Cons.IH [OF rest this] Cons.prems show ?case by simp
qed

lemma smear_rows_nonneg:
  "smear_rows rate energy sigma bw is buf = Inr out \<Longrightarrow> \<forall>x \<in> set buf. 0 \<le> x \<Longrightarrow>
   \<forall>b \<in> set bw. 0 \<le> b \<Longrightarrow> \<forall>r \<in> set rate. 0 \<le> r \<Longrightarrow> \<forall>s \<in> set sigma. 0 < s \<Longrightarrow>
   \<forall>x \<in> set out. 0 \<le> x"
proof (induction "is" arbitrary: buf)
  case Nil
  then show ?case by simp
next
  case (Cons i "is")
  from Cons.prems(1) obtain v where
    v: "smear_row rate energy sigma bw i [0..<length rate] 0 = Inr v"
    and rest: "smear_rows rate energy sigma bw is (buf[i := v]) = Inr out"
    by (auto split: sum.splits if_splits)
  from smear_row_nonneg [OF v] Cons.prems have "0 \<le> v" by simp
  with Cons.prems(2) have "\<forall>x \<in> set (buf[i := v]). 0 \<le> x"
    by (auto dest!: subsetD [OF set_update_subset_insert])
  from Cons.IH [OF rest this] Cons.prems show ?case by simp
qed

lemma smear_signal_returned_nonneg:
  assumes "smear_signal rate energy sigma bin_width = Inr (ws, out)"
    "\<forall>r \<in> set rate. 0 \<le> r" "\<forall>s \<in> set sigma. 0 < s" "\<forall>b \<in> set bin_width. 0 \<le> b"
  shows "\<forall>x \<in> set out. 0 \<le> x"
proof -
  from assms(1) consider "out = rate"
    | "smear_rows rate energy sigma bin_width [0..<length energy] (replicate (length rate) 0) = Inr out"
    by (auto simp: smear_signal_def smear_signal_loop_def split: sum.splits if_splits)
  then show ?thesis
  proof cases
    case 1
    with assms(2) show ?thesis by simp
  next
    case 2
    have start: "\<forall>x \<in> set (replicate (length rate) (0 :: real)). 0 \<le> x" by simp
    from 2 start assms(4,2,3) show ?thesis by (rule smear_rows_nonneg)
  qed
qed

text \<open>
  C10. For non-negative rates, strictly positive \<open>sigma\<close> and non-negative bin widths,
  every entry of an array that \<^verbatim>\<open>smear_signal\<close> of \<^verbatim>\<open>dddm\<close> returns is non-negative,
  in the fallback and in the convolution; and with arrays of one length it does return
  an array, of that length.
\<close>

theorem smear_signal_nonneg:
  assumes "\<forall>r \<in> set rate. 0 \<le> r" "\<forall>s \<in> set sigma. 0 < s" "\<forall>b \<in> set bin_width. 0 \<le> b"
  shows "(smear_signal rate energy sigma bin_width = Inr (ws, out) \<longrightarrow> (\<forall>x \<in> set out. 0 \<le> x)) \<and>
         (length energy = length rate \<and> length sigma = length rate \<and>
          length bin_width = length rate \<longrightarrow>
            (\<exists>ws out. smear_signal rate energy sigma bin_width = Inr (ws, out) \<and>
               length out = length rate))"
proof (intro conjI impI)
  assume "smear_signal rate energy sigma bin_width = Inr (ws, out)"
  from this assms show "\<forall>x \<in> set out. 0 \<le> x" by (rule smear_signal_returned_nonneg)
next
  assume len: "length energy = length rate \<and> length sigma = length rate \<and>
    length bin_width = length rate"
  from assms(2) have "0 \<notin> set sigma" by auto
  with len show "\<exists>ws out. smear_signal rate energy sigma bin_width = Inr (ws, out) \<and>
      length out = length rate"
    by (intro smear_signal_returns) simp_all
qed

theorem smear_signal_nonneg_witness:
  "\<exists>ws out. smear_signal [1, 0] [0, 1] [2, 2] [2, 2] = Inr (ws, out) \<and>
      length out = length [1, 0 :: real] \<and> list_all (\<lambda>x. 0 \<le> x) out"
proof -
  have r: "\<forall>r \<in> set [1, 0 :: real]. 0 \<le> r" and s: "\<forall>s \<in> set [2, 2 :: real]. 0 < s"
    and b: "\<forall>b \<in> set [2, 2 :: real]. 0 \<le> b"
    by simp_all
  have len: "length [0, 1 :: real] = length [1, 0 :: real] \<and>
      length [2, 2 :: real] = length [1, 0 :: real] \<and> length [2, 2 :: real] = length [1, 0 :: real]"
    by simp
  from smear_signal_nonneg [OF r s b, of "[0, 1]", THEN conjunct2, THEN mp, OF len]
  obtain ws out where run: "smear_signal [1, 0] [0, 1] [2, 2] [2, 2] = Inr (ws, out)"
    and l: "length out = length [1, 0 :: real]"
    by blast
  from smear_signal_nonneg [OF r s b, of "[0, 1]" ws out, THEN conjunct1, THEN mp, OF run]
  have "list_all (\<lambda>x. 0 \<le> x) out" by (simp add: list_all_iff)
  with run l show ?thesis by blast
qed

subsection \<open>Fit parameters\<close>

lemma take_eq_iff_prefix: "ps = take (length ps) known \<longleftrightarrow> prefix ps known"
proof
  assume "ps = take (length ps) known"
  then show "prefix ps known" by (metis take_is_prefix)
next
  assume "prefix ps known"
  then show "ps = take (length ps) known" by (auto simp: prefix_def)
qed

lemma prefix_all_known: "prefix ps known \<Longrightarrow> find (\<lambda>name. name \<notin> set known) ps = None"
  by (auto simp: find_None_iff prefix_def)

text \<open>
  C6. A list of names that is a prefix of \<open>known_parameters\<close> is accepted by
  \<^verbatim>\<open>set_fit_parameters\<close> and stored in \<open>fit_parameters\<close>; every other list is refused, with
  a \<open>NotImplementedError\<close> for its first unknown name or else a \<open>NameError\<close>. Fit parameters
  set by other means that are no such prefix stop \<^verbatim>\<open>run_nestle\<close> at its assertion,
  whatever the sampler is: the sampler is not called.
\<close>

theorem set_fit_parameters_prefix:
  "(prefix ps (known_parameters self) \<longrightarrow>
      set_fit_parameters self (PyList ps) = Inr (self\<lparr>fit_parameters := ps\<rparr>)) \<and>
   (\<not> prefix ps (known_parameters self) \<longrightarrow>
      (\<exists>e. set_fit_parameters self (PyList ps) = Inl e \<and>
           ((\<exists>name. e = NotImplementedError name \<and> name \<in> set ps \<and>
                     name \<notin> set (known_parameters self)) \<or>
            e = NameError (take (length ps) (known_parameters self)) ps))) \<and>
   (\<not> prefix (fit_parameters self) (known_parameters self) \<longrightarrow>
      run_nestle sample eval_spectrum log_likelihood ndtr ndtri self = Inl AssertionError)"
proof (intro conjI impI)
  assume pre: "prefix ps (known_parameters self)"
  from prefix_all_known [OF pre] pre take_eq_iff_prefix [of ps "known_parameters self"]
  show "set_fit_parameters self (PyList ps) = Inr (self\<lparr>fit_parameters := ps\<rparr>)"
    by (simp add: set_fit_parameters_def)
next
  assume npre: "\<not> prefix ps (known_parameters self)"
  then have ne: "\<not> ps = take (length ps) (known_parameters self)"
    by (simp add: take_eq_iff_prefix [symmetric])
  show "\<exists>e. set_fit_parameters self (PyList ps) = Inl e \<and>
           ((\<exists>name. e = NotImplementedError name \<and> name \<in> set ps \<and>
                     name \<notin> set (known_parameters self)) \<or>
            e = NameError (take (length ps) (known_parameters self)) ps)"
  proof (cases "find (\<lambda>name. name \<notin> set (known_parameters self)) ps")
    case None
    with ne show ?thesis by (simp add: set_fit_parameters_def)
  next
    case (Some name)
    then have "name \<in> set ps \<and> name \<notin> set (known_parameters self)"
      by (auto simp: find_Some_iff)
    with Some show ?thesis by (simp add: set_fit_parameters_def)
  qed
next
  assume "\<not> prefix (fit_parameters self) (known_parameters self)"
  then have "\<not> fit_parameters self = take (length (fit_parameters self)) (known_parameters self)"
    by (simp add: take_eq_iff_prefix [symmetric])
  then show "run_nestle sample eval_spectrum log_likelihood ndtr ndtri self = Inl AssertionError"
    by (simp add: run_nestle_def Let_def)
qed

theorem set_fit_parameters_prefix_witness:
  "set_fit_parameters example_model (PyList [''log_mass'']) =
     Inr (example_model\<lparr>fit_parameters := [''log_mass'']\<rparr>) \<and>
   set_fit_parameters example_model (PyList [''log_cross_section'']) =
     Inl (NameError [''log_mass''] [''log_cross_section'']) \<and>
   run_nestle one_point_sample echo_spectrum nan_likelihood std_normal_cdf std_normal_quantile
     (example_model\<lparr>fit_parameters := [''log_cross_section'']\<rparr>) = Inl AssertionError"
proof -
  have known: "known_parameters example_model =
      [''log_mass'', ''log_cross_section'', ''v_0'', ''v_esc'', ''density'']"
    by (simp add: example_model_def)
  have yes: "prefix [''log_mass''] (known_parameters example_model)"
    by (simp add: known)
  have no: "\<not> prefix [''log_cross_section''] (known_parameters example_model)"
    by (simp add: known)
  from yes set_fit_parameters_prefix [of "[''log_mass'']" example_model]
  have "set_fit_parameters example_model (PyList [''log_mass'']) =
      Inr (example_model\<lparr>fit_parameters := [''log_mass'']\<rparr>)"
    by blast
  moreover from no
    set_fit_parameters_prefix [of "[''log_cross_section'']" example_model]
  have "set_fit_parameters example_model (PyList [''log_cross_section'']) =
      Inl (NameError [''log_mass''] [''log_cross_section''])"
    by (auto simp: known)
  moreover from no
    set_fit_parameters_prefix [of _ "example_model\<lparr>fit_parameters := [''log_cross_section'']\<rparr>"
      one_point_sample echo_spectrum nan_likelihood std_normal_cdf std_normal_quantile]
  have "run_nestle one_point_sample echo_spectrum nan_likelihood std_normal_cdf std_normal_quantile
      (example_model\<lparr>fit_parameters := [''log_cross_section'']\<rparr>) = Inl AssertionError"
    by simp
  ultimately show ?thesis by simp
qed

subsection \<open>A NaN log-likelihood\<close>

lemma log_probability_nestle_never_nan:
  "log_probability_nestle eval_spectrum log_likelihood self vals names \<noteq> Inr NaN"
  by (auto simp: log_probability_nestle_def split: sum.splits)

text \<open>
  C5, as amended. At every parameter vector where the log-likelihood is NaN,
  \<^verbatim>\<open>log_probability_nestle\<close> raises a \<open>ValueError\<close> whose message is
  \<^verbatim>\<open>Returned NaN from likelihood. ll = nan\<close>: it holds the NaN, not the parameter vector.
  A NaN is never returned as a likelihood, and an error that the sampler lets through
  ends \<^verbatim>\<open>run_nestle\<close> with that error, the run not marked as done.
\<close>

theorem log_probability_nestle_nan:
  assumes "eval_spectrum parameter_vals parameter_names = Inr evaluated_rate"
    and "log_likelihood (benchmark_values self) evaluated_rate = Inr NaN"
  shows "log_probability_nestle eval_spectrum log_likelihood self parameter_vals parameter_names =
           Inl (ValueError ''Returned NaN from likelihood. ll = nan'') \<and>
         (\<forall>vals names. log_probability_nestle eval_spectrum log_likelihood self vals names \<noteq> Inr NaN) \<and>
         (fit_parameters self = take (length (fit_parameters self)) (known_parameters self) \<and>
          sample (log_probability_nestle_theta eval_spectrum log_likelihood self)
            (log_prior_transform_nestle_theta ndtr ndtri self (known_parameters self))
            (length (fit_parameters self)) = Inl e \<longrightarrow>
          run_nestle sample eval_spectrum log_likelihood ndtr ndtri self = Inl e)"
  using assms log_probability_nestle_never_nan [of eval_spectrum log_likelihood self]
  by (simp add: log_probability_nestle_def str_nan_def run_nestle_def Let_def)

theorem log_probability_nestle_nan_witness:
  "log_probability_nestle echo_spectrum nan_likelihood example_model
      [2, - 45] [''log_mass'', ''log_cross_section''] =
     Inl (ValueError ''Returned NaN from likelihood. ll = nan'') \<and>
   run_nestle one_point_sample echo_spectrum nan_likelihood std_normal_cdf std_normal_quantile
      example_model =
     Inl (ValueError ''Returned NaN from likelihood. ll = nan'')"
proof -
  have a: "echo_spectrum [2, - 45] [''log_mass'', ''log_cross_section''] = Inr [2, - 45]"
    by (simp add: echo_spectrum_def)
  have b: "nan_likelihood (benchmark_values example_model) [2, - 45] = Inr NaN"
    by (simp add: nan_likelihood_def)
  have c: "fit_parameters example_model =
      take (length (fit_parameters example_model)) (known_parameters example_model)"
    by (simp add: example_model_def)
  have d: "one_point_sample (log_probability_nestle_theta echo_spectrum nan_likelihood example_model)
      (log_prior_transform_nestle_theta std_normal_cdf std_normal_quantile example_model
         (known_parameters example_model))
      (length (fit_parameters example_model)) =
      Inl (ValueError ''Returned NaN from likelihood. ll = nan'')"
    by (simp add: one_point_sample_def log_probability_nestle_theta_def
        log_probability_nestle_def echo_spectrum_def nan_likelihood_def str_nan_def)
  from log_probability_nestle_nan [where eval_spectrum = echo_spectrum
      and log_likelihood = nan_likelihood and self = example_model
      and parameter_vals = "[2, - 45]" and parameter_names = "[''log_mass'', ''log_cross_section'']"
      and evaluated_rate = "[2, - 45]" and sample = one_point_sample
      and ndtr = std_normal_cdf and ndtri = std_normal_quantile
      and e = "ValueError ''Returned NaN from likelihood. ll = nan''"] a b c d
  show ?thesis by blast
qed

text \<open>
  C5 as stated fails where it has the error surface the parameter vector: two different
  vectors with a NaN likelihood raise the same error.
\<close>

theorem log_probability_nestle_error_without_vector:
  "log_probability_nestle echo_spectrum nan_likelihood example_model
      [2, - 45] [''log_mass'', ''log_cross_section''] =
     Inl (ValueError ''Returned NaN from likelihood. ll = nan'') \<and>
   log_probability_nestle echo_spectrum nan_likelihood example_model
      [3, - 40] [''log_mass'', ''log_cross_section''] =
     Inl (ValueError ''Returned NaN from likelihood. ll = nan'')"
  by (simp add: log_probability_nestle_def echo_spectrum_def nan_likelihood_def str_nan_def)

subsection \<open>The prior transform\<close>















lemma std_normal_cdf_zero: "std_normal_cdf 0 = 1 / 2"
proof -
  have "(\<lambda>n. ndtr_coeff n * 0 ^ n) = (\<lambda>n. 0)"
    by (rule ext) (simp add: ndtr_coeff_def power_0_left)
  then show ?thesis by (simp add: std_normal_cdf_def)
qed





subsection \<open>The detected spectrum\<close>

lemma calculate_counts_order:
  "calculate_counts self wimp_mass cross_section poisson bin_centers bin_width bin_edges =
   counts_in_stated_order self wimp_mass cross_section bin_centers bin_width bin_edges"
  by (simp add: calculate_counts_def counts_in_stated_order_def inject_background_def
      and_then_def Let_def split: sum.splits prod.splits)

lemma compute_detected_spectrum_order:
  "compute_detected_spectrum legacy_spectrum_simple self =
   spectrum_cut_before_smear legacy_spectrum_simple self"
  by (simp add: compute_detected_spectrum_def spectrum_cut_before_smear_def rebinned_def
      legacy_inject_background_def legacy_cut_def legacy_smear_def legacy_rebin_and_scale_def
      and_then_def Let_def split: sum.splits)

lemma upt10: "[0..<10] = [0, 1, 2, 3, 4, 5, 6, 7, 8, 9]"
  by (simp add: upt_rec)

lemma example_fields:
  "E_min (rebinned example_spectrum) = 0"
  "E_max (rebinned example_spectrum) = 10"
  "n_bins (rebinned example_spectrum) = 10"
  "n_bins_result (rebinned example_spectrum) = 1"
  "add_background (rebinned example_spectrum) = False"
  "E_thr (the_experiment (rebinned example_spectrum)) = 5"
  "exp_eff (the_experiment (rebinned example_spectrum)) = 2"
  "exp_res (the_experiment (rebinned example_spectrum)) = map (\<lambda>E. 1)"
  by (simp_all add: rebinned_def example_spectrum_def rebin_factor_def)

lemma example_centers:
  "get_bin_centers (rebinned example_spectrum) =
   [1/2, 3/2, 5/2, 7/2, 9/2, 11/2, 13/2, 15/2, 17/2, 19/2]"
  by (simp add: get_bin_centers_def get_bins_def example_fields upt10)

lemma example_mean_diff:
  "np_mean (np_diff [1/2, 3/2, 5/2, 7/2, 9/2, 11/2, 13/2, 15/2, 17/2, 19/2]) = 1"
  by (simp add: np_mean_def np_diff_def)


lemma example_low:
  "legacy_inject_background low_spectrum (rebinned example_spectrum) =
   Inr [1, 0, 0, 0, 0, 0, 0, 0, 0, 0]"
  by (simp add: legacy_inject_background_def low_spectrum_def example_fields numeral_eq_Suc)

lemma example_cut_low:
  "legacy_cut (rebinned example_spectrum) [1, 0, 0, 0, 0, 0, 0, 0, 0, 0] =
   Inr [0, 0, 0, 0, 0, 0, 0, 0, 0, 0]"
  by (simp add: legacy_cut_def example_centers legacy_above_threshold_def example_fields)

lemma example_smear:
  "legacy_smear (rebinned example_spectrum) [r0, r1, r2, r3, r4, r5, r6, r7, r8, r9] =
   Inr (convolution [r0, r1, r2, r3, r4, r5, r6, r7, r8, r9]
          [1/2, 3/2, 5/2, 7/2, 9/2, 11/2, 13/2, 15/2, 17/2, 19/2]
          [1, 1, 1, 1, 1, 1, 1, 1, 1, 1] [1, 1, 1, 1, 1, 1, 1, 1, 1, 1])"
proof -
  let ?E = "[1/2, 3/2, 5/2, 7/2, 9/2, 11/2, 13/2, 15/2, 17/2, 19/2 :: real]"
  let ?R = "[r0, r1, r2, r3, r4, r5, r6, r7, r8, r9]"
  have "legacy_smear_signal ?R ?E (map (\<lambda>E. 1) ?E) 1 =
      Inr (convolution ?R ?E (map (\<lambda>E. 1) ?E) (replicate (length ?R) 1))"
    by (rule legacy_smear_signal_convolution) simp_all
  then show ?thesis
    by (simp add: legacy_smear_def example_centers example_mean_diff example_fields numeral_eq_Suc)
qed

lemma example_smear_zero:
  "legacy_smear (rebinned example_spectrum) [0, 0, 0, 0, 0, 0, 0, 0, 0, 0] =
   Inr [0, 0, 0, 0, 0, 0, 0, 0, 0, 0]"
  by (simp add: example_smear convolution_def gauss_term_def upt10)

lemma example_rebin:
  "legacy_rebin_and_scale (rebinned example_spectrum) [c0, c1, c2, c3, c4, c5, c6, c7, c8, c9] =
   Inr (rebinned example_spectrum,
        [Fin ((c0 + (c1 + (c2 + (c3 + (c4 + (c5 + (c6 + (c7 + (c8 + c9))))))))) * 2)])"
  unfolding legacy_rebin_and_scale_def example_centers example_fields
  by (simp add: get_bins_def chuck_integration_def chuck_bin_def and_then_def np_diff_def
      np_mean_def algebra_simps)

lemma example_code_order:
  "compute_detected_spectrum low_spectrum example_spectrum =
   Inr (rebinned example_spectrum, [Fin 0])"
  by (simp add: compute_detected_spectrum_order spectrum_cut_before_smear_def Let_def
      example_low example_cut_low example_smear_zero example_rebin and_then_def)

lemma example_smear_low:
  "\<exists>c0 c1 c2 c3 c4 c5 c6 c7 c8 c9.
     legacy_smear (rebinned example_spectrum) [1, 0, 0, 0, 0, 0, 0, 0, 0, 0] =
       Inr [c0, c1, c2, c3, c4, c5, c6, c7, c8, c9] \<and>
     0 < c5 \<and> 0 < c6 \<and> 0 < c7 \<and> 0 < c8 \<and> 0 < c9"
  by (simp add: example_smear convolution_def gauss_term_def upt10)

lemma example_cut_smeared:
  "legacy_cut (rebinned example_spectrum) [c0, c1, c2, c3, c4, c5, c6, c7, c8, c9] =
   Inr [0, 0, 0, 0, 0, c5, c6, c7, c8, c9]"
  by (simp add: legacy_cut_def example_centers legacy_above_threshold_def example_fields)

lemma example_stated_order:
  "\<exists>c. spectrum_in_stated_order low_spectrum example_spectrum =
     Inr (rebinned example_spectrum, [Fin c]) \<and> 0 < c"
proof -
  from example_smear_low obtain c0 c1 c2 c3 c4 c5 c6 c7 c8 c9 where
    sm: "legacy_smear (rebinned example_spectrum) [1, 0, 0, 0, 0, 0, 0, 0, 0, 0] =
       Inr [c0, c1, c2, c3, c4, c5, c6, c7, c8, c9]"
    and pos: "0 < c5" "0 < c6" "0 < c7" "0 < c8" "0 < c9"
    by blast
  have "spectrum_in_stated_order low_spectrum example_spectrum =
     Inr (rebinned example_spectrum, [Fin ((c5 + (c6 + (c7 + (c8 + c9)))) * 2)])"
    by (simp add: spectrum_in_stated_order_def Let_def example_low sm example_cut_smeared
        example_rebin and_then_def)
  moreover from pos have "0 < (c5 + (c6 + (c7 + (c8 + c9)))) * 2" by simp
  ultimately show ?thesis by blast
qed

text \<open>
  C1 as stated fails for \<^verbatim>\<open>compute_detected_spectrum\<close> of \<^verbatim>\<open>DirectDmTargets\<close>, which cuts
  at the threshold before it smears: a rate below the threshold is removed before it can
  be smeared to energies above it, and the result differs from that of the stated order.
\<close>

theorem threshold_cut_before_smearing:
  "compute_detected_spectrum low_spectrum example_spectrum \<noteq>
   spectrum_in_stated_order low_spectrum example_spectrum"
  using example_code_order example_stated_order by auto




























lemma cut_bin_below: "L < R \<Longrightarrow> R \<le> T \<Longrightarrow> cut_bin T r (L, R) = 0"
  by (simp add: cut_bin_def)

lemma calculate_counts_zero_below_threshold:
  assumes ord: "ordered_bins bin_edges"
    and lens: "length (spectrum_simple self bin_centers wimp_mass cross_section) = length bin_centers"
      "length (background_function self bin_centers) = length bin_centers"
      "length (resolution self bin_centers) = length bin_centers"
      "length bin_width = length bin_centers" "length bin_edges = length bin_centers"
    and eff: "effective_exposure self \<noteq> 0" and sig: "0 \<notin> set (resolution self bin_centers)"
  shows "\<exists>ws out. calculate_counts self wimp_mass cross_section poisson bin_centers bin_width bin_edges =
             Inr (ws, out) \<and> length out = length bin_centers \<and>
           (\<forall>i < length bin_centers.
              snd (bin_edges ! i) \<le> energy_threshold_kev self \<longrightarrow> out ! i = 0)"
proof -
  let ?n = "length bin_centers"
  let ?T = "energy_threshold_kev self"
  let ?bg = "map (\<lambda>b. b * (exposure_tonne_year self / effective_exposure self))
               (background_function self bin_centers)"
  let ?r1 = "map2 (+) (spectrum_simple self bin_centers wimp_mass cross_section) ?bg"
  have s1: "inject_background self bin_centers
      (spectrum_simple self bin_centers wimp_mass cross_section) = Inr ?r1"
    using eff lens by (simp add: inject_background_def np_iadd_def)
  have l1: "length ?r1 = ?n" using lens by simp
  from smear_signal_returns [of bin_centers ?r1 "resolution self bin_centers" bin_width]
    l1 lens sig
  obtain ws r2 where
    s2: "smear_signal ?r1 bin_centers (resolution self bin_centers) bin_width = Inr (ws, r2)"
    and l2: "length r2 = ?n"
    by auto
  let ?r3 = "map2 (cut_bin ?T) r2 bin_edges"
  have s3: "above_threshold r2 bin_edges ?T = Inr ?r3"
    using ord l2 lens by (intro above_threshold_ordered) simp_all
  let ?r4 = "map2 (*) ?r3 bin_width"
  have s4: "np_mul ?r3 bin_width = Inr ?r4"
    using l2 lens by (simp add: np_mul_def)
  let ?out = "map (\<lambda>r. r * effective_exposure self) ?r4"
  have res: "calculate_counts self wimp_mass cross_section poisson bin_centers bin_width bin_edges =
      Inr (ws, ?out)"
    unfolding calculate_counts_order counts_in_stated_order_def
    by (simp only: s1 s2 s3 s4 and_then_def sum.case prod.case)
  have len: "length ?out = ?n" using l2 lens by simp
  have zero: "?out ! i = 0" if i: "i < ?n" and below: "snd (bin_edges ! i) \<le> ?T" for i
  proof -
    obtain L R where e: "bin_edges ! i = (L, R)" by (cases "bin_edges ! i")
    from ordered_bins_nth [OF ord, of i] i lens e have "L < R" by simp
    with below e have "cut_bin ?T (r2 ! i) (bin_edges ! i) = 0"
      by (simp add: cut_bin_below)
    with i l2 lens show ?thesis by simp
  qed
  from res len zero show ?thesis by blast
qed

text \<open>
  C1, as amended. \<^verbatim>\<open>_calculate_counts\<close> of \<^verbatim>\<open>dddm\<close> applies its stages in the stated
  order: background injection, Gaussian smearing, threshold cut (on the smeared rates),
  multiplication by the bin widths, scaling by the effective exposure; so with ordered
  bins and arrays of one length it returns zero counts in every bin that lies below the
  threshold. \<^verbatim>\<open>compute_detected_spectrum\<close> of \<^verbatim>\<open>DirectDmTargets\<close> has another order:
  background injection, hard threshold cut on the unsmeared rates, smearing, re-binning,
  scaling.
\<close>

theorem detected_spectrum_stage_order:
  "calculate_counts self wimp_mass cross_section poisson bin_centers bin_width bin_edges =
     counts_in_stated_order self wimp_mass cross_section bin_centers bin_width bin_edges \<and>
   compute_detected_spectrum legacy_spectrum_simple legacy_self =
     spectrum_cut_before_smear legacy_spectrum_simple legacy_self \<and>
   (ordered_bins bin_edges \<and>
    length (spectrum_simple self bin_centers wimp_mass cross_section) = length bin_centers \<and>
    length (background_function self bin_centers) = length bin_centers \<and>
    length (resolution self bin_centers) = length bin_centers \<and>
    length bin_width = length bin_centers \<and> length bin_edges = length bin_centers \<and>
    effective_exposure self \<noteq> 0 \<and> 0 \<notin> set (resolution self bin_centers) \<longrightarrow>
      (\<exists>ws out. calculate_counts self wimp_mass cross_section poisson bin_centers bin_width bin_edges =
           Inr (ws, out) \<and> length out = length bin_centers \<and>
         (\<forall>i < length bin_centers.
            snd (bin_edges ! i) \<le> energy_threshold_kev self \<longrightarrow> out ! i = 0)))"
  using calculate_counts_order compute_detected_spectrum_order
    calculate_counts_zero_below_threshold [of bin_edges self bin_centers wimp_mass cross_section
      bin_width poisson]
  by blast

theorem detected_spectrum_stage_order_witness:
  "\<exists>ws out. calculate_counts example_detector 50 1 False
       [1 / 2, 3 / 2] [1, 1] [(0, 1), (1, 2)] = Inr (ws, out) \<and>
     length out = length [1 / 2, 3 / 2 :: real] \<and> out ! 0 = 0"
proof -
  let ?c = "[1 / 2, 3 / 2 :: real]"
  have hyps: "ordered_bins [(0, 1), (1, 2)] \<and>
    length (spectrum_simple example_detector ?c 50 1) = length ?c \<and>
    length (background_function example_detector ?c) = length ?c \<and>
    length (resolution example_detector ?c) = length ?c \<and>
    length [1, 1 :: real] = length ?c \<and> length [(0, 1), (1, 2 :: real)] = length ?c \<and>
    effective_exposure example_detector \<noteq> 0 \<and> 0 \<notin> set (resolution example_detector ?c)"
    by (simp add: ordered_bins_def example_detector_def)
  have "\<exists>ws out. calculate_counts example_detector 50 1 False ?c [1, 1] [(0, 1), (1, 2)] =
       Inr (ws, out) \<and> length out = length ?c \<and>
       (\<forall>i < length ?c.
          snd ([(0 :: real, 1 :: real), (1, 2)] ! i) \<le> energy_threshold_kev example_detector \<longrightarrow>
          out ! i = 0)"
    by (rule detected_spectrum_stage_order [of example_detector 50 1 False ?c
      "[1, 1]" "[(0, 1), (1, 2)]" low_spectrum example_spectrum,
      THEN conjunct2, THEN conjunct2, THEN mp, OF hyps])
  then show ?thesis
  proof (elim exE conjE)
    fix ws out
    assume run: "calculate_counts example_detector 50 1 False ?c [1, 1] [(0, 1), (1, 2)] =
       Inr (ws, out)"
      and len: "length out = length ?c"
      and zero: "\<forall>i < length ?c.
          snd ([(0 :: real, 1 :: real), (1, 2)] ! i) \<le> energy_threshold_kev example_detector \<longrightarrow>
          out ! i = 0"
    from zero have "out ! 0 = 0" by (simp add: example_detector_def)
    with run len show ?thesis by (intro exI conjI)
  qed
qed



end
